theory Spec2Isabelle
  imports Main "HOL-Library.Word"
begin

section \<open>The contract ElderlyMonitoringFHE\<close>

subsection \<open>Types and storage\<close>

text \<open>
  Solidity's \<open>uint256\<close> is a 256-bit word. An \<open>euint32\<close> is a user-defined value type
  over \<open>bytes32\<close>: an opaque 256-bit handle (\<open>FHE.toBytes32\<close> only unwraps it).
  \<open>bytes\<close> is a list of bytes, \<open>address\<close> a 160-bit word.
\<close>

type_synonym uint256 = "256 word"
type_synonym euint32 = "256 word"
type_synonym bytes = "8 word list"
type_synonym address = "160 word"

text \<open>
  The three structs. The fields \<open>id\<close> and \<open>timestamp\<close> occur in two structs and
  \<open>id\<close> is a constant of HOL, so they carry the struct as a suffix.
\<close>

record EncryptedSensorData =
  id_data :: uint256
  encryptedActivityVector :: euint32
  encryptedSleepVector :: euint32
  timestamp_data :: uint256

record EncryptedAlert =
  id_alert :: uint256
  encryptedAlertPayload :: euint32
  timestamp_alert :: uint256

record DecryptedEvent =
  summary :: string
  isHandled :: bool

text \<open>
  The state variables of the contract. A Solidity mapping is total: a key that was never
  written reads as the zero value of the value type.
\<close>

record contract =
  sensorDataCount :: uint256
  alertCount :: uint256
  sensorDatas :: "uint256 \<Rightarrow> EncryptedSensorData"
  encryptedAlerts :: "uint256 \<Rightarrow> EncryptedAlert"
  decryptedEvents :: "uint256 \<Rightarrow> DecryptedEvent"
  requestToDataId :: "uint256 \<Rightarrow> uint256"
  requestToAlertId :: "uint256 \<Rightarrow> uint256"

text \<open>The events of the contract; a call returns the ones it emits, in order.\<close>

datatype event =
  SensorDataSubmitted uint256 uint256
  | AnomalyDetectionRequested uint256
  | AnomalyDetected uint256
  | EncryptedAlertSubmitted uint256 uint256
  | AlertDecryptionRequested uint256
  | AlertDecrypted uint256

text \<open>
  Every way a call reverts. The first four are the \<open>require\<close> messages of the source
  (``Data not found'', ``Invalid request'', ``Already handled'', ``Alert not found'').
  \<open>Invalid_proof\<close> is the revert of \<open>FHE.checkSignatures\<close>, \<open>Decode_failure\<close> the
  revert of \<open>abi.decode\<close> on bytes that are not an encoding of the requested type,
  \<open>Arithmetic_overflow\<close> the panic of checked arithmetic (Solidity 0.8) when a counter
  at \<open>2^256 - 1\<close> is incremented, and \<open>Decryption_request_reverted\<close> a revert inside
  \<open>FHE.requestDecryption\<close> (the library refuses, for instance, a contract that is not
  allowed to have the handles decrypted).
\<close>

datatype error =
  Data_not_found
  | Invalid_request
  | Already_handled
  | Alert_not_found
  | Invalid_proof
  | Decode_failure
  | Arithmetic_overflow
  | Decryption_request_reverted

text \<open>
  What the contract takes from outside its own source: the signature check of the FHE
  library and the ABI decoder of the compiler, for the two types the callbacks decode
  (\<open>None\<close> when the decoder reverts). They are parameters of the model. What
  \<open>FHE.requestDecryption\<close> does is an argument of the two request functions:
  \<open>Some reqId\<close> when the library returns the request id \<open>reqId\<close>, \<open>None\<close> when it
  reverts.
\<close>

record fhe_oracle =
  checkSignatures :: "uint256 \<Rightarrow> bytes \<Rightarrow> bytes \<Rightarrow> bool"
  abi_decode_string_array :: "bytes \<Rightarrow> string list option"
  abi_decode_string :: "bytes \<Rightarrow> string option"

text \<open>The state of a freshly deployed contract: every slot is zero.\<close>

definition initial :: contract where
  "initial =
    \<lparr>sensorDataCount = 0, alertCount = 0,
     sensorDatas = (\<lambda>_. \<lparr>id_data = 0, encryptedActivityVector = 0,
        encryptedSleepVector = 0, timestamp_data = 0\<rparr>),
     encryptedAlerts = (\<lambda>_. \<lparr>id_alert = 0, encryptedAlertPayload = 0, timestamp_alert = 0\<rparr>),
     decryptedEvents = (\<lambda>_. \<lparr>summary = [], isHandled = False\<rparr>),
     requestToDataId = (\<lambda>_. 0), requestToAlertId = (\<lambda>_. 0)\<rparr>"

subsection \<open>The functions of the contract\<close>

text \<open>\<open>x += 1\<close> on a \<open>uint256\<close>: checked, it reverts instead of wrapping.\<close>

definition checked_increment :: "uint256 \<Rightarrow> error + uint256" where
  "checked_increment x = (if x = - 1 then Inl Arithmetic_overflow else Inr (x + 1))"

text \<open>The modifier \<open>onlySource\<close>: a placeholder that runs the body for every caller.\<close>

definition onlySource :: "address \<Rightarrow> 'a \<Rightarrow> 'a" where
  "onlySource msg_sender body = body"

text \<open>
  \<open>submitEncryptedSensorData\<close> (source lines 50--67): increment the counter, store the
  record under the new id with the block timestamp, reset the outcome of that id, emit
  \<open>SensorDataSubmitted\<close>.
\<close>

definition submitEncryptedSensorData ::
  "euint32 \<Rightarrow> euint32 \<Rightarrow> uint256 \<Rightarrow> contract \<Rightarrow> error + contract \<times> event list" where
  "submitEncryptedSensorData activity sleep block_timestamp s =
    (case checked_increment (sensorDataCount s) of
      Inl e \<Rightarrow> Inl e
    | Inr newId \<Rightarrow>
        Inr (s\<lparr>sensorDataCount := newId,
               sensorDatas := (sensorDatas s)(newId :=
                 \<lparr>id_data = newId, encryptedActivityVector = activity,
                  encryptedSleepVector = sleep, timestamp_data = block_timestamp\<rparr>),
               decryptedEvents := (decryptedEvents s)(newId :=
                 \<lparr>summary = [], isHandled = False\<rparr>)\<rparr>,
             [SensorDataSubmitted newId block_timestamp]))"

text \<open>
  \<open>requestAnomalyDetection\<close> (lines 70--82): require a stored record, hand its two
  handles to \<open>FHE.requestDecryption\<close>, store the returned request id against the record
  id, emit \<open>AnomalyDetectionRequested\<close>. The handles only go to the library, whose
  answer is an argument here: the request id it returns, or \<open>None\<close> when the call at
  line 78 reverts, which reverts the whole function.
\<close>

definition requestAnomalyDetection ::
  "address \<Rightarrow> uint256 \<Rightarrow> uint256 option \<Rightarrow> contract \<Rightarrow> error + contract \<times> event list" where
  "requestAnomalyDetection msg_sender dataId answer s =
    onlySource msg_sender
      (let dataRecord = sensorDatas s dataId in
       if id_data dataRecord = 0 then Inl Data_not_found
       else
         (case answer of
           None \<Rightarrow> Inl Decryption_request_reverted
         | Some reqId \<Rightarrow>
             Inr (s\<lparr>requestToDataId := (requestToDataId s)(reqId := dataId)\<rparr>,
                  [AnomalyDetectionRequested dataId])))"

text \<open>
  \<open>handleAnomalyResult\<close> (lines 85--104), in the order of the source: look the request
  id up, require it registered, require the outcome not handled, check the signatures,
  decode the cleartexts as \<open>string[]\<close>, store the first string (or the empty one)
  and set the flag, emit \<open>AnomalyDetected\<close>.
\<close>

definition handleAnomalyResult ::
  "fhe_oracle \<Rightarrow> uint256 \<Rightarrow> bytes \<Rightarrow> bytes \<Rightarrow> contract \<Rightarrow> error + contract \<times> event list" where
  "handleAnomalyResult orc requestId cleartexts prf s =
    (let dataId = requestToDataId s requestId in
     if dataId = 0 then Inl Invalid_request
     else
       let ev = decryptedEvents s dataId in
       if isHandled ev then Inl Already_handled
       else if \<not> checkSignatures orc requestId cleartexts prf then Inl Invalid_proof
       else
         (case abi_decode_string_array orc cleartexts of
           None \<Rightarrow> Inl Decode_failure
         | Some results \<Rightarrow>
             Inr (s\<lparr>decryptedEvents := (decryptedEvents s)(dataId :=
                    ev\<lparr>summary := (if length results > 0 then results ! 0 else []),
                       isHandled := True\<rparr>)\<rparr>,
                  [AnomalyDetected dataId])))"

text \<open>
  \<open>submitEncryptedAlert\<close> (lines 107--118): as the record intake, on the alert counter
  and the alert store, without an outcome.
\<close>

definition submitEncryptedAlert ::
  "euint32 \<Rightarrow> uint256 \<Rightarrow> contract \<Rightarrow> error + contract \<times> event list" where
  "submitEncryptedAlert payload block_timestamp s =
    (case checked_increment (alertCount s) of
      Inl e \<Rightarrow> Inl e
    | Inr newId \<Rightarrow>
        Inr (s\<lparr>alertCount := newId,
               encryptedAlerts := (encryptedAlerts s)(newId :=
                 \<lparr>id_alert = newId, encryptedAlertPayload = payload,
                  timestamp_alert = block_timestamp\<rparr>)\<rparr>,
             [EncryptedAlertSubmitted newId block_timestamp]))"

text \<open>
  \<open>requestAlertDecryption\<close> (lines 121--132): the request for an alert, with the
  answer of the library call at line 128.
\<close>

definition requestAlertDecryption ::
  "address \<Rightarrow> uint256 \<Rightarrow> uint256 option \<Rightarrow> contract \<Rightarrow> error + contract \<times> event list" where
  "requestAlertDecryption msg_sender alertId answer s =
    onlySource msg_sender
      (let a = encryptedAlerts s alertId in
       if id_alert a = 0 then Inl Alert_not_found
       else
         (case answer of
           None \<Rightarrow> Inl Decryption_request_reverted
         | Some reqId \<Rightarrow>
             Inr (s\<lparr>requestToAlertId := (requestToAlertId s)(reqId := alertId)\<rparr>,
                  [AlertDecryptionRequested alertId])))"

text \<open>
  \<open>handleAlertCleartext\<close> (lines 135--148): look the request id up, require it
  registered, check the signatures, decode the cleartexts as one \<open>string\<close>, emit
  \<open>AlertDecrypted\<close>. Nothing is stored; the decoded text is not used.
\<close>

definition handleAlertCleartext ::
  "fhe_oracle \<Rightarrow> uint256 \<Rightarrow> bytes \<Rightarrow> bytes \<Rightarrow> contract \<Rightarrow> error + contract \<times> event list" where
  "handleAlertCleartext orc requestId cleartexts prf s =
    (let alertId = requestToAlertId s requestId in
     if alertId = 0 then Inl Invalid_request
     else if \<not> checkSignatures orc requestId cleartexts prf then Inl Invalid_proof
     else
       (case abi_decode_string orc cleartexts of
         None \<Rightarrow> Inl Decode_failure
       | Some alertText \<Rightarrow> Inr (s, [AlertDecrypted alertId])))"

text \<open>\<open>getDecryptedEvent\<close> (lines 151--154): a view of the outcome of an id.\<close>

definition getDecryptedEvent :: "contract \<Rightarrow> uint256 \<Rightarrow> string \<times> bool" where
  "getDecryptedEvent s dataId =
    (let ev = decryptedEvents s dataId in (summary ev, isHandled ev))"

subsection \<open>Transactions\<close>

text \<open>
  A call of a state-changing function, with its arguments and what the environment
  supplies to it: the block timestamp of an intake, the sender of a request and the
  answer of \<open>FHE.requestDecryption\<close> to it.
\<close>

datatype call =
  SubmitEncryptedSensorData euint32 euint32 uint256
  | RequestAnomalyDetection address uint256 "uint256 option"
  | HandleAnomalyResult uint256 bytes bytes
  | SubmitEncryptedAlert euint32 uint256
  | RequestAlertDecryption address uint256 "uint256 option"
  | HandleAlertCleartext uint256 bytes bytes

fun exec :: "fhe_oracle \<Rightarrow> call \<Rightarrow> contract \<Rightarrow> error + contract \<times> event list" where
  "exec orc (SubmitEncryptedSensorData a sl ts) s = submitEncryptedSensorData a sl ts s"
| "exec orc (RequestAnomalyDetection sender dataId answer) s =
     requestAnomalyDetection sender dataId answer s"
| "exec orc (HandleAnomalyResult requestId cleartexts prf) s =
     handleAnomalyResult orc requestId cleartexts prf s"
| "exec orc (SubmitEncryptedAlert p ts) s = submitEncryptedAlert p ts s"
| "exec orc (RequestAlertDecryption sender alertId answer) s =
     requestAlertDecryption sender alertId answer s"
| "exec orc (HandleAlertCleartext requestId cleartexts prf) s =
     handleAlertCleartext orc requestId cleartexts prf s"

text \<open>
  A transaction: a call that reverts leaves the storage as it was, one that returns
  leaves the storage it computed.
\<close>

definition transact :: "fhe_oracle \<Rightarrow> call \<Rightarrow> contract \<Rightarrow> contract" where
  "transact orc c s = (case exec orc c s of Inl e \<Rightarrow> s | Inr (s', evs) \<Rightarrow> s')"

text \<open>The storage after a sequence of transactions, in order.\<close>

fun run :: "fhe_oracle \<Rightarrow> contract \<Rightarrow> call list \<Rightarrow> contract" where
  "run orc s [] = s"
| "run orc s (c # cs) = run orc (transact orc c s) cs"

text \<open>
  The request ids under which the calls of \<open>requestAnomalyDetection\<close> that returned
  registered a record, over a sequence of transactions.
\<close>

fun anomaly_tokens :: "fhe_oracle \<Rightarrow> contract \<Rightarrow> call list \<Rightarrow> uint256 list" where
  "anomaly_tokens orc s [] = []"
| "anomaly_tokens orc s (c # cs) =
     (case exec orc c s of
       Inl e \<Rightarrow> []
     | Inr r \<Rightarrow>
         (case c of
           RequestAnomalyDetection sender dataId (Some reqId) \<Rightarrow> [reqId]
         | _ \<Rightarrow> []))
     @ anomaly_tokens orc (transact orc c s) cs"

text \<open>
  The record ids of the \<open>SensorDataSubmitted\<close> events a sequence of transactions emits:
  the ids under which a record was submitted.
\<close>

fun submitted_id :: "event \<Rightarrow> uint256 list" where
  "submitted_id (SensorDataSubmitted newId ts) = [newId]"
| "submitted_id _ = []"

fun submitted_ids :: "fhe_oracle \<Rightarrow> contract \<Rightarrow> call list \<Rightarrow> uint256 list" where
  "submitted_ids orc s [] = []"
| "submitted_ids orc s (c # cs) =
     (case exec orc c s of
       Inl e \<Rightarrow> []
     | Inr r \<Rightarrow> concat (map submitted_id (snd r)))
     @ submitted_ids orc (transact orc c s) cs"

text \<open>
  A sequence of record submissions, each given by its two handles and the block
  timestamp.
\<close>

definition submissions :: "(euint32 \<times> euint32 \<times> uint256) list \<Rightarrow> call list" where
  "submissions xs =
    map (\<lambda>(activity, sleep, ts). SubmitEncryptedSensorData activity sleep ts) xs"

text \<open>
  A concrete oracle for evaluating the model: a proof verifies when it is the single byte
  1, whatever the request id and the cleartexts; the cleartexts \<open>[1]\<close> decode as the
  list of the strings ``fall_detected'' and ``ok'', \<open>[2]\<close> as the one-element list
  ``no_anomaly'' and \<open>[3]\<close> as the empty list; \<open>[4]\<close> decodes as the single string
  ``help''; no other bytes decode.
\<close>

definition sample_oracle :: fhe_oracle where
  "sample_oracle =
    \<lparr>checkSignatures = (\<lambda>requestId cleartexts prf. prf = [1]),
     abi_decode_string_array = (\<lambda>cleartexts.
        if cleartexts = [1] then Some [''fall_detected'', ''ok'']
        else if cleartexts = [2] then Some [''no_anomaly'']
        else if cleartexts = [3] then Some []
        else None),
     abi_decode_string = (\<lambda>cleartexts. if cleartexts = [4] then Some ''help'' else None)\<rparr>"

subsection \<open>Invariants\<close>

text \<open>
  A record that was not handled has the empty summary: the summary is only written
  together with the handled flag.
\<close>

definition blank_until_handled :: "contract \<Rightarrow> bool" where
  "blank_until_handled s =
    (\<forall>i. \<not> isHandled (decryptedEvents s i) \<longrightarrow> summary (decryptedEvents s i) = [])"

text \<open>
  Whatever the storage knows of a record lies within the counter: a stored record, the
  target of a correlation entry and a handled outcome all have an id of at most
  \<open>sensorDataCount\<close>. The next submission therefore writes a fresh id.
\<close>

definition ids_within_count :: "contract \<Rightarrow> bool" where
  "ids_within_count s =
    ((\<forall>i. id_data (sensorDatas s i) \<noteq> 0 \<longrightarrow> i \<le> sensorDataCount s) \<and>
     (\<forall>t. requestToDataId s t \<le> sensorDataCount s) \<and>
     (\<forall>i. isHandled (decryptedEvents s i) \<longrightarrow> i \<le> sensorDataCount s))"

section \<open>Properties\<close>

subsection \<open>Transactions and runs\<close>

lemmas contract_defs =
  submitEncryptedSensorData_def requestAnomalyDetection_def handleAnomalyResult_def
  submitEncryptedAlert_def requestAlertDecryption_def handleAlertCleartext_def
  checked_increment_def onlySource_def

lemmas sample_defs =
  contract_defs sample_oracle_def initial_def transact_def getDecryptedEvent_def Let_def

lemma run_append: "run orc s (xs @ ys) = run orc (run orc s xs) ys"
  by (induction xs arbitrary: s) simp_all

subsection \<open>Where correlation entries and records come from\<close>

text \<open>Only a \<open>requestAnomalyDetection\<close> that returns writes the record correlation.\<close>

lemma requestToDataId_transact:
  "requestToDataId (transact orc c s) tok \<noteq> requestToDataId s tok \<Longrightarrow>
   \<exists>sender dataId r.
     c = RequestAnomalyDetection sender dataId (Some tok) \<and> exec orc c s = Inr r"
  by (cases c)
    (auto simp: transact_def contract_defs Let_def split: if_splits option.splits)

lemma token_origin:
  "requestToDataId (run orc s cs) tok \<noteq> 0 \<Longrightarrow>
   requestToDataId s tok \<noteq> 0 \<or> tok \<in> set (anomaly_tokens orc s cs)"
proof (induction cs arbitrary: s)
  case Nil
  then show ?case by simp
next
  case (Cons c cs)
  from Cons.IH [of "transact orc c s"] Cons.prems
  consider "requestToDataId (transact orc c s) tok \<noteq> 0"
    | "tok \<in> set (anomaly_tokens orc (transact orc c s) cs)"
    by auto
  then show ?case
  proof cases
    case 1
    show ?thesis
    proof (cases "requestToDataId (transact orc c s) tok = requestToDataId s tok")
      case True
      with 1 show ?thesis by simp
    next
      case False
      from requestToDataId_transact [OF False] show ?thesis by auto
    qed
  next
    case 2
    then show ?thesis by simp
  qed
qed

text \<open>Only a submission that returns writes a record, under the id of its event.\<close>

lemma sensorDatas_transact:
  "id_data (sensorDatas (transact orc c s) i) \<noteq> id_data (sensorDatas s i) \<Longrightarrow>
   \<exists>r. exec orc c s = Inr r \<and> i \<in> set (concat (map submitted_id (snd r))) \<and> i \<noteq> 0"
  by (cases c)
    (auto simp: transact_def contract_defs Let_def add_eq_0_iff2 split: if_splits option.splits)

lemma record_origin:
  "id_data (sensorDatas (run orc s cs) i) \<noteq> 0 \<Longrightarrow>
   id_data (sensorDatas s i) \<noteq> 0 \<or> (i \<in> set (submitted_ids orc s cs) \<and> i \<noteq> 0)"
proof (induction cs arbitrary: s)
  case Nil
  then show ?case by simp
next
  case (Cons c cs)
  from Cons.IH [of "transact orc c s"] Cons.prems
  consider "id_data (sensorDatas (transact orc c s) i) \<noteq> 0"
    | "i \<in> set (submitted_ids orc (transact orc c s) cs) \<and> i \<noteq> 0"
    by auto
  then show ?case
  proof cases
    case 1
    show ?thesis
    proof (cases "id_data (sensorDatas (transact orc c s) i) = id_data (sensorDatas s i)")
      case True
      with 1 show ?thesis by simp
    next
      case False
      from sensorDatas_transact [OF False] show ?thesis by auto
    qed
  next
    case 2
    then show ?thesis by simp
  qed
qed

lemma zero_never_submitted: "0 \<notin> set (submitted_ids orc s cs)"
proof (induction cs arbitrary: s)
  case Nil
  then show ?case by simp
next
  case (Cons c cs)
  have "0 \<notin> set (concat (map submitted_id (snd r)))" if "exec orc c s = Inr r" for r
    using that
    by (cases c)
      (auto simp: contract_defs Let_def add_eq_0_iff2 split: if_splits option.splits)
  note h = this
  show ?case
  proof (cases "exec orc c s")
    case (Inl e)
    with Cons.IH show ?thesis by simp
  next
    case (Inr r)
    with h [OF Inr] Cons.IH show ?thesis by simp
  qed
qed

subsection \<open>The summary is written with the handled flag\<close>

lemma blank_initial: "blank_until_handled initial"
  by (simp add: blank_until_handled_def initial_def)

lemma blank_transact: "blank_until_handled s \<Longrightarrow> blank_until_handled (transact orc c s)"
  by (cases c)
    (auto simp: blank_until_handled_def transact_def contract_defs Let_def
      split: if_splits option.splits)

lemma blank_run: "blank_until_handled s \<Longrightarrow> blank_until_handled (run orc s cs)"
  by (induction cs arbitrary: s) (simp_all add: blank_transact)

subsection \<open>Ids stay within the counter\<close>

lemma increment_fresh:
  fixes x :: uint256
  assumes "x \<noteq> - 1" and "i \<le> x"
  shows "i \<le> x + 1" and "i \<noteq> x + 1"
proof -
  from assms(1) have "x < x + 1"
    using inc_less_eq_self_iff_eq [of x] by (simp add: not_le)
  with assms(2) show "i \<le> x + 1" and "i \<noteq> x + 1" by auto
qed

lemma within_initial: "ids_within_count initial"
  by (simp add: ids_within_count_def initial_def)

lemma within_transact: "ids_within_count s \<Longrightarrow> ids_within_count (transact orc c s)"
proof (cases c)
  case (SubmitEncryptedSensorData a sl ts)
  assume "ids_within_count s"
  then show ?thesis
    using SubmitEncryptedSensorData
    by (auto simp: ids_within_count_def transact_def contract_defs
        increment_fresh split: if_splits)
next
  case (RequestAnomalyDetection sender dataId answer)
  assume "ids_within_count s"
  then show ?thesis
    using RequestAnomalyDetection
    by (auto simp: ids_within_count_def transact_def contract_defs Let_def split: if_splits option.splits)
next
  case (HandleAnomalyResult requestId cleartexts pf)
  assume "ids_within_count s"
  then show ?thesis
    using HandleAnomalyResult
    by (auto simp: ids_within_count_def transact_def contract_defs Let_def
        split: if_splits option.splits)
next
  case (SubmitEncryptedAlert p ts)
  assume "ids_within_count s"
  then show ?thesis
    using SubmitEncryptedAlert
    by (auto simp: ids_within_count_def transact_def contract_defs split: if_splits)
next
  case (RequestAlertDecryption sender alertId answer)
  assume "ids_within_count s"
  then show ?thesis
    using RequestAlertDecryption
    by (auto simp: ids_within_count_def transact_def contract_defs Let_def split: if_splits option.splits)
next
  case (HandleAlertCleartext requestId cleartexts pf)
  assume "ids_within_count s"
  then show ?thesis
    using HandleAlertCleartext
    by (auto simp: ids_within_count_def transact_def contract_defs Let_def
        split: if_splits option.splits)
qed

lemma within_run: "ids_within_count s \<Longrightarrow> ids_within_count (run orc s cs)"
  by (induction cs arbitrary: s) (simp_all add: within_transact)

text \<open>Once handled, the outcome of a record is never written again.\<close>

lemma handled_transact:
  assumes "ids_within_count s" and "isHandled (decryptedEvents s i)"
  shows "decryptedEvents (transact orc c s) i = decryptedEvents s i"
proof (cases c)
  case (SubmitEncryptedSensorData a sl ts)
  from assms have "i \<le> sensorDataCount s" by (simp add: ids_within_count_def)
  then show ?thesis
    using SubmitEncryptedSensorData
    by (auto simp: transact_def contract_defs increment_fresh split: if_splits)
next
  case (HandleAnomalyResult requestId cleartexts pf)
  with assms(2) show ?thesis
    by (auto simp: transact_def contract_defs Let_def split: if_splits option.splits)
qed (auto simp: transact_def contract_defs Let_def split: if_splits option.splits)

lemma handled_run:
  assumes "ids_within_count s" and "isHandled (decryptedEvents s i)"
  shows "decryptedEvents (run orc s cs) i = decryptedEvents s i"
  using assms
proof (induction cs arbitrary: s)
  case Nil
  then show ?case by simp
next
  case (Cons c cs)
  from Cons.prems have e: "decryptedEvents (transact orc c s) i = decryptedEvents s i"
    by (rule handled_transact)
  with Cons.prems have "isHandled (decryptedEvents (transact orc c s) i)" by simp
  with Cons.IH [of "transact orc c s"] Cons.prems(1) e show ?case
    by (simp add: within_transact)
qed

lemma handle_return:
  assumes "handleAnomalyResult orc requestId cleartexts prf s = Inr (s1, evs)"
  shows "requestToDataId s requestId \<noteq> 0"
    and "\<not> isHandled (decryptedEvents s (requestToDataId s requestId))"
    and "checkSignatures orc requestId cleartexts prf"
    and "\<exists>results. abi_decode_string_array orc cleartexts = Some results \<and>
          s1 = s\<lparr>decryptedEvents := (decryptedEvents s)(requestToDataId s requestId :=
            (decryptedEvents s (requestToDataId s requestId))
              \<lparr>summary := (case results of [] \<Rightarrow> [] | r # rest \<Rightarrow> r),
               isHandled := True\<rparr>)\<rparr>"
    and "evs = [AnomalyDetected (requestToDataId s requestId)]"
  using assms
  by (auto simp: handleAnomalyResult_def Let_def neq_Nil_conv
      split: if_splits option.splits list.splits)

text \<open>A stored record stays stored, and a submission that returns stores its record.\<close>

lemma stored_transact:
  assumes "ids_within_count s" and "id_data (sensorDatas s i) \<noteq> 0"
  shows "sensorDatas (transact orc c s) i = sensorDatas s i"
proof (cases c)
  case (SubmitEncryptedSensorData a sl ts)
  from assms have "i \<le> sensorDataCount s" by (simp add: ids_within_count_def)
  then show ?thesis
    using SubmitEncryptedSensorData
    by (auto simp: transact_def contract_defs increment_fresh split: if_splits)
qed (auto simp: transact_def contract_defs Let_def split: if_splits option.splits)

lemma submitted_stored:
  assumes "exec orc c s = Inr r" and "i \<in> set (concat (map submitted_id (snd r)))"
  shows "id_data (sensorDatas (transact orc c s) i) \<noteq> 0"
  using assms
  by (cases c)
    (auto simp: transact_def contract_defs Let_def add_eq_0_iff2 split: if_splits option.splits)

lemma submitted_persist:
  assumes "ids_within_count s"
    and "id_data (sensorDatas s i) \<noteq> 0 \<or> i \<in> set (submitted_ids orc s cs)"
  shows "id_data (sensorDatas (run orc s cs) i) \<noteq> 0"
  using assms
proof (induction cs arbitrary: s)
  case Nil
  then show ?case by simp
next
  case (Cons c cs)
  have w: "ids_within_count (transact orc c s)"
    using Cons.prems(1) by (rule within_transact)
  have "id_data (sensorDatas (transact orc c s) i) \<noteq> 0 \<or>
      i \<in> set (submitted_ids orc (transact orc c s) cs)"
  proof (cases "id_data (sensorDatas s i) \<noteq> 0")
    case True
    with Cons.prems(1) show ?thesis by (simp add: stored_transact)
  next
    case False
    with Cons.prems(2) have m: "i \<in> set (submitted_ids orc s (c # cs))" by simp
    show ?thesis
    proof (cases "exec orc c s")
      case (Inl e)
      with m show ?thesis by simp
    next
      case (Inr r)
      with m consider "i \<in> set (concat (map submitted_id (snd r)))"
        | "i \<in> set (submitted_ids orc (transact orc c s) cs)"
        by auto
      then show ?thesis
      proof cases
        case 1
        with Inr show ?thesis by (simp add: submitted_stored)
      next
        case 2
        then show ?thesis by simp
      qed
    qed
  qed
  with Cons.IH [OF w] show ?case by simp
qed

subsection \<open>Sequences of submissions\<close>

lemma unat_max: "unat (- 1 :: uint256) = 2 ^ 256 - 1"
  by (simp add: unsigned_minus_1_eq_mask mask_eq_exp_minus_1)

lemma of_nat_not_max:
  assumes "n < 2 ^ 256 - 1"
  shows "(word_of_nat n :: uint256) \<noteq> - 1"
proof
  assume "(word_of_nat n :: uint256) = - 1"
  then have "unat (word_of_nat n :: uint256) = unat (- 1 :: uint256)" by simp
  with assms show False by (simp add: unat_of_nat unat_max)
qed

lemma of_nat_max: "(word_of_nat (2 ^ 256 - 1) :: uint256) = - 1"
  by (rule word_unat_eq_iff [THEN iffD2]) (simp add: unat_of_nat unat_max)

lemma submitted_ids_append:
  "submitted_ids orc s (xs @ ys) = submitted_ids orc s xs @ submitted_ids orc (run orc s xs) ys"
  by (induction xs arbitrary: s) simp_all

lemma submissions_snoc:
  "submissions (xs @ [(a, sl, ts)]) = submissions xs @ [SubmitEncryptedSensorData a sl ts]"
  by (simp add: submissions_def)

text \<open>One more submission, on a counter that has room.\<close>

lemma submit_step:
  assumes "sensorDataCount s = word_of_nat n" and "n < 2 ^ 256 - 1"
  shows "submitEncryptedSensorData a sl ts s =
    Inr (s\<lparr>sensorDataCount := word_of_nat (Suc n),
           sensorDatas := (sensorDatas s)(word_of_nat (Suc n) :=
             \<lparr>id_data = word_of_nat (Suc n), encryptedActivityVector = a,
              encryptedSleepVector = sl, timestamp_data = ts\<rparr>),
           decryptedEvents := (decryptedEvents s)(word_of_nat (Suc n) :=
             \<lparr>summary = [], isHandled = False\<rparr>)\<rparr>,
         [SensorDataSubmitted (word_of_nat (Suc n)) ts])"
  using assms of_nat_not_max [of n]
  by (simp add: submitEncryptedSensorData_def checked_increment_def add.commute)

lemma submissions_count:
  "length xs < 2 ^ 256 \<Longrightarrow>
   sensorDataCount (run orc initial (submissions xs)) = word_of_nat (length xs) \<and>
   submitted_ids orc initial (submissions xs) = map word_of_nat [1..<Suc (length xs)]"
proof (induction xs rule: rev_induct)
  case Nil
  then show ?case by (simp add: submissions_def initial_def)
next
  case (snoc x xs)
  obtain a sl ts where x: "x = (a, sl, ts)" by (cases x)
  let ?s = "run orc initial (submissions xs)"
  from snoc.prems have n: "length xs < 2 ^ 256 - 1" by simp
  with snoc.IH have c: "sensorDataCount ?s = word_of_nat (length xs)"
    and i: "submitted_ids orc initial (submissions xs) = map word_of_nat [1..<Suc (length xs)]"
    by simp_all
  note st = submit_step [OF c n, of a sl ts]
  have r: "run orc initial (submissions (xs @ [x])) =
      transact orc (SubmitEncryptedSensorData a sl ts) ?s"
    by (simp add: x submissions_snoc run_append)
  have "sensorDataCount (run orc initial (submissions (xs @ [x]))) =
      word_of_nat (length (xs @ [x]))"
    unfolding r by (simp add: transact_def st)
  moreover have "submitted_ids orc initial (submissions (xs @ [x])) =
      map word_of_nat [1..<Suc (length (xs @ [x]))]"
    by (simp add: x submissions_snoc submitted_ids_append i st)
  ultimately show ?case by simp
qed

text \<open>
  After \<open>2^256 - 1\<close> submissions the counter is full: the next submission reverts, so a
  sequence of \<open>2^256\<close> submissions assigns only \<open>2^256 - 1\<close> ids.
\<close>

lemma counter_full:
  assumes "N = 2 ^ 256"
  shows "submitEncryptedSensorData a sl ts
      (run orc initial (submissions (replicate (N - 1) x))) = Inl Arithmetic_overflow"
    and "submitted_ids orc initial (submissions (replicate N x)) \<noteq>
      map word_of_nat [1..<Suc N]"
proof -
  obtain xa xsl xts where x: "x = (xa, xsl, xts)" by (cases x)
  let ?xs = "replicate (N - 1) x"
  let ?s = "run orc initial (submissions ?xs)"
  from assms have m: "N - 1 = 2 ^ 256 - 1" and l: "N - 1 < 2 ^ 256" and S: "N = Suc (N - 1)"
    by simp_all
  have len: "length ?xs = N - 1" by simp
  have "length ?xs < 2 ^ 256" using l by simp
  note sc = submissions_count [OF this, of orc, unfolded len]
  from sc have c: "sensorDataCount ?s = word_of_nat (N - 1)"
    by (rule conjunct1)
  from sc have ids: "submitted_ids orc initial (submissions ?xs) =
      map word_of_nat [1..<Suc (N - 1)]"
    by (rule conjunct2)
  have i: "length (submitted_ids orc initial (submissions ?xs)) = N - 1"
    unfolding ids by (simp del: upt_Suc)
  from c have full: "sensorDataCount ?s = - 1"
    unfolding m by (simp only: of_nat_max)
  then show o: "submitEncryptedSensorData a sl ts ?s = Inl Arithmetic_overflow" for a sl ts
    by (simp add: submitEncryptedSensorData_def checked_increment_def)
  have "replicate N x = ?xs @ [x]"
    using S by (metis replicate_Suc replicate_append_same)
  then have "submitted_ids orc initial (submissions (replicate N x)) =
      submitted_ids orc initial (submissions ?xs)"
    using o [of xa xsl xts] by (simp add: x submissions_snoc submitted_ids_append)
  with i have "length (submitted_ids orc initial (submissions (replicate N x))) = N - 1"
    by simp
  moreover have "length (map (word_of_nat :: nat \<Rightarrow> uint256) [1..<Suc N]) = N" by simp
  ultimately show "submitted_ids orc initial (submissions (replicate N x)) \<noteq>
      map word_of_nat [1..<Suc N]"
    using S by (metis n_not_Suc_n)
qed

subsection \<open>The alert callback\<close>

text \<open>
  \<open>handleAlertCleartext\<close> writes nothing, whether it returns or reverts.
\<close>

lemma alert_callback_keeps_state:
  "transact orc (HandleAlertCleartext requestId cleartexts pf) s = s"
  by (simp add: transact_def handleAlertCleartext_def Let_def split: option.splits)

lemma alert_callbacks_keep_state:
  "run orc s (replicate n (HandleAlertCleartext requestId cleartexts pf)) = s"
  by (induction n) (simp_all add: alert_callback_keeps_state)

subsection \<open>Callbacks of different records\<close>

lemma callback_alone:
  assumes "requestToDataId s t1 \<noteq> 0"
    and "\<not> isHandled (decryptedEvents s (requestToDataId s t1))"
    and "checkSignatures orc t1 c1 p1"
    and "abi_decode_string_array orc c1 = Some rs1"
  shows "getDecryptedEvent (transact orc (HandleAnomalyResult t1 c1 p1) s) (requestToDataId s t1) =
    (case rs1 of [] \<Rightarrow> [] | r # rest \<Rightarrow> r, True)"
  using assms
  by (auto simp: transact_def handleAnomalyResult_def getDecryptedEvent_def Let_def
      split: list.splits)

lemma callback_other_record:
  assumes "requestToDataId s t1 \<noteq> dataId"
  shows "decryptedEvents (transact orc (HandleAnomalyResult t1 c1 p1) s) dataId =
    decryptedEvents s dataId"
  using assms
  by (auto simp: transact_def handleAnomalyResult_def Let_def split: option.splits)

lemma callback_keeps_correlation:
  "requestToDataId (transact orc (HandleAnomalyResult t1 c1 p1) s) = requestToDataId s"
  by (auto simp: transact_def handleAnomalyResult_def Let_def split: option.splits)

lemma callbacks_commute_state:
  assumes "requestToDataId s t1 \<noteq> requestToDataId s t2"
  shows "transact orc (HandleAnomalyResult t2 c2 p2)
      (transact orc (HandleAnomalyResult t1 c1 p1) s) =
    transact orc (HandleAnomalyResult t1 c1 p1)
      (transact orc (HandleAnomalyResult t2 c2 p2) s)"
  using assms
  by (auto simp: transact_def handleAnomalyResult_def Let_def fun_upd_twist
      split: option.splits)

section \<open>The claims\<close>

text \<open>
  Claim C1, as the code has it. \<open>handleAnomalyResult\<close> checks the proof before it
  decodes or stores anything, but after its two other guards. For every state and
  every call whose proof fails the signature check, whatever the cleartexts are, the call
  reverts and the storage is unchanged, so \<open>getDecryptedEvent\<close> returns for every record
  what it returned before. The error is \<open>Invalid_proof\<close> exactly when the token is
  registered and its record is not yet handled; an unregistered token gives
  \<open>Invalid_request\<close> and a handled record \<open>Already_handled\<close>, since those guards run
  first. In every state reached from the initial one, a record that is not handled
  reads as the initial pair of the empty summary and \<open>False\<close>.
\<close>

theorem unverified_callback_rejected:
  "\<not> checkSignatures orc requestId cleartexts prf \<Longrightarrow>
   handleAnomalyResult orc requestId cleartexts prf s =
     Inl (if requestToDataId s requestId = 0 then Invalid_request
          else if isHandled (decryptedEvents s (requestToDataId s requestId))
            then Already_handled
          else Invalid_proof) \<and>
   transact orc (HandleAnomalyResult requestId cleartexts prf) s = s \<and>
   getDecryptedEvent (transact orc (HandleAnomalyResult requestId cleartexts prf) s) dataId =
     getDecryptedEvent s dataId \<and>
   (\<not> isHandled (decryptedEvents (run orc initial cs) dataId) \<longrightarrow>
     getDecryptedEvent (run orc initial cs) dataId = ([], False))"
proof -
  assume bad: "\<not> checkSignatures orc requestId cleartexts prf"
  then have r: "handleAnomalyResult orc requestId cleartexts prf s =
     Inl (if requestToDataId s requestId = 0 then Invalid_request
          else if isHandled (decryptedEvents s (requestToDataId s requestId))
            then Already_handled
          else Invalid_proof)"
    by (simp add: handleAnomalyResult_def Let_def)
  then have t: "transact orc (HandleAnomalyResult requestId cleartexts prf) s = s"
    by (simp add: transact_def)
  from t have g:
    "getDecryptedEvent (transact orc (HandleAnomalyResult requestId cleartexts prf) s) dataId =
     getDecryptedEvent s dataId"
    by simp
  have "blank_until_handled (run orc initial cs)"
    by (simp add: blank_run blank_initial)
  then have i: "\<not> isHandled (decryptedEvents (run orc initial cs) dataId) \<longrightarrow>
     getDecryptedEvent (run orc initial cs) dataId = ([], False)"
    by (simp add: blank_until_handled_def getDecryptedEvent_def Let_def)
  show ?thesis
    by (intro conjI) (fact r, fact t, fact g, fact i)
qed

text \<open>
  A record is submitted and a request registered under token 7; the callback arrives with
  decodable cleartexts and a proof that does not verify.
\<close>

theorem unverified_callback_rejected_witness:
  "\<not> checkSignatures sample_oracle 7 [1] [0] \<and>
   handleAnomalyResult sample_oracle 7 [1] [0]
     (run sample_oracle initial
        [SubmitEncryptedSensorData 10 20 1000, RequestAnomalyDetection 0 1 (Some 7)]) =
     Inl Invalid_proof \<and>
   transact sample_oracle (HandleAnomalyResult 7 [1] [0])
     (run sample_oracle initial
        [SubmitEncryptedSensorData 10 20 1000, RequestAnomalyDetection 0 1 (Some 7)]) =
     run sample_oracle initial
        [SubmitEncryptedSensorData 10 20 1000, RequestAnomalyDetection 0 1 (Some 7)] \<and>
   getDecryptedEvent (transact sample_oracle (HandleAnomalyResult 7 [1] [0])
     (run sample_oracle initial
        [SubmitEncryptedSensorData 10 20 1000, RequestAnomalyDetection 0 1 (Some 7)])) 1 = ([], False)"
  using unverified_callback_rejected [of sample_oracle 7 "[1]" "[0]"
      "run sample_oracle initial
        [SubmitEncryptedSensorData 10 20 1000, RequestAnomalyDetection 0 1 (Some 7)]" 1
      "[SubmitEncryptedSensorData 10 20 1000, RequestAnomalyDetection 0 1 (Some 7)]"]
  by (simp add: sample_defs)

text \<open>
  Claim C1 as it is stated fails where a result was already applied: the same record,
  after a verified callback, receives a callback whose proof does not verify, and the
  call reverts with \<open>Already_handled\<close>, not with \<open>Invalid_proof\<close>.
\<close>

theorem unverified_callback_on_handled_record:
  "\<not> checkSignatures sample_oracle 7 [1] [0] \<and>
   handleAnomalyResult sample_oracle 7 [1] [0]
     (run sample_oracle initial [SubmitEncryptedSensorData 10 20 1000,
        RequestAnomalyDetection 0 1 (Some 7), HandleAnomalyResult 7 [1] [1]]) = Inl Already_handled"
  by (simp add: sample_defs)

text \<open>
  Claim C2. Let a call of \<open>handleAnomalyResult\<close> return in a state reached from the
  initial one, for the record \<open>R\<close> its token maps to. Then \<open>R\<close> is handled; after any
  further transactions \<open>getDecryptedEvent R\<close> still returns the outcome that call wrote;
  and every later \<open>handleAnomalyResult\<close> with a token that maps to \<open>R\<close> reverts with
  \<open>Already_handled\<close>, whatever its cleartexts and proof. In every reachable state no
  transaction changes the outcome of a handled record: the flag goes from false to
  true once and is never reset.
\<close>

theorem handled_is_terminal:
  assumes "handleAnomalyResult orc requestId cleartexts prf (run orc initial cs) = Inr (s1, evs)"
  shows "snd (getDecryptedEvent s1 (requestToDataId (run orc initial cs) requestId)) \<and>
    getDecryptedEvent (run orc s1 later) (requestToDataId (run orc initial cs) requestId) =
      getDecryptedEvent s1 (requestToDataId (run orc initial cs) requestId) \<and>
    (requestToDataId (run orc s1 later) requestId' =
        requestToDataId (run orc initial cs) requestId \<longrightarrow>
      handleAnomalyResult orc requestId' cleartexts' prf' (run orc s1 later) =
        Inl Already_handled) \<and>
    (isHandled (decryptedEvents (run orc initial cs) dataId) \<longrightarrow>
      decryptedEvents (transact orc c (run orc initial cs)) dataId =
        decryptedEvents (run orc initial cs) dataId)"
proof -
  let ?s = "run orc initial cs"
  let ?R = "requestToDataId ?s requestId"
  have ws: "ids_within_count ?s"
    by (simp add: within_run within_initial)
  from assms have t: "transact orc (HandleAnomalyResult requestId cleartexts prf) ?s = s1"
    by (simp add: transact_def)
  with ws have w1: "ids_within_count s1"
    using within_transact [of ?s orc "HandleAnomalyResult requestId cleartexts prf"] by simp
  from handle_return(1,4) [OF assms] have h1: "isHandled (decryptedEvents s1 ?R)"
    by auto
  then have a: "snd (getDecryptedEvent s1 ?R)"
    by (simp add: getDecryptedEvent_def)
  from w1 h1 have e: "decryptedEvents (run orc s1 later) ?R = decryptedEvents s1 ?R"
    by (rule handled_run)
  then have b: "getDecryptedEvent (run orc s1 later) ?R = getDecryptedEvent s1 ?R"
    by (simp add: getDecryptedEvent_def)
  from handle_return(1) [OF assms] have nz: "?R \<noteq> 0" .
  have c: "requestToDataId (run orc s1 later) requestId' = ?R \<longrightarrow>
      handleAnomalyResult orc requestId' cleartexts' prf' (run orc s1 later) =
        Inl Already_handled"
    using nz e h1 by (simp add: handleAnomalyResult_def Let_def)
  have d: "isHandled (decryptedEvents ?s dataId) \<longrightarrow>
      decryptedEvents (transact orc c ?s) dataId = decryptedEvents ?s dataId"
    using ws by (simp add: handled_transact)
  show ?thesis
    by (intro conjI) (fact a, fact b, fact c, fact d)
qed

text \<open>
  Two records; record 2 is handled first, then record 1 under token 7. Later a second
  token 9 is registered for record 1, a third record is submitted, and token 7 is
  replayed with other cleartexts: record 1 keeps its first summary, and a callback under
  token 9 is refused.
\<close>

theorem handled_is_terminal_witness:
  "handleAnomalyResult sample_oracle 7 [1] [1]
     (run sample_oracle initial
        [SubmitEncryptedSensorData 10 20 1000, SubmitEncryptedSensorData 11 21 1001,
         RequestAnomalyDetection 0 1 (Some 7), RequestAnomalyDetection 0 2 (Some 8),
         HandleAnomalyResult 8 [2] [1]]) =
     Inr (run sample_oracle initial
        [SubmitEncryptedSensorData 10 20 1000, SubmitEncryptedSensorData 11 21 1001,
         RequestAnomalyDetection 0 1 (Some 7), RequestAnomalyDetection 0 2 (Some 8),
         HandleAnomalyResult 8 [2] [1], HandleAnomalyResult 7 [1] [1]], [AnomalyDetected 1]) \<and>
   getDecryptedEvent (run sample_oracle initial
        [SubmitEncryptedSensorData 10 20 1000, SubmitEncryptedSensorData 11 21 1001,
         RequestAnomalyDetection 0 1 (Some 7), RequestAnomalyDetection 0 2 (Some 8),
         HandleAnomalyResult 8 [2] [1], HandleAnomalyResult 7 [1] [1],
         RequestAnomalyDetection 0 1 (Some 9), SubmitEncryptedSensorData 12 22 1002,
         HandleAnomalyResult 7 [2] [1]]) 1 = (''fall_detected'', True) \<and>
   requestToDataId (run sample_oracle initial
        [SubmitEncryptedSensorData 10 20 1000, SubmitEncryptedSensorData 11 21 1001,
         RequestAnomalyDetection 0 1 (Some 7), RequestAnomalyDetection 0 2 (Some 8),
         HandleAnomalyResult 8 [2] [1], HandleAnomalyResult 7 [1] [1],
         RequestAnomalyDetection 0 1 (Some 9), SubmitEncryptedSensorData 12 22 1002,
         HandleAnomalyResult 7 [2] [1]]) 9 = 1 \<and>
   handleAnomalyResult sample_oracle 9 [2] [1] (run sample_oracle initial
        [SubmitEncryptedSensorData 10 20 1000, SubmitEncryptedSensorData 11 21 1001,
         RequestAnomalyDetection 0 1 (Some 7), RequestAnomalyDetection 0 2 (Some 8),
         HandleAnomalyResult 8 [2] [1], HandleAnomalyResult 7 [1] [1],
         RequestAnomalyDetection 0 1 (Some 9), SubmitEncryptedSensorData 12 22 1002,
         HandleAnomalyResult 7 [2] [1]]) = Inl Already_handled \<and>
   isHandled (decryptedEvents (run sample_oracle initial
        [SubmitEncryptedSensorData 10 20 1000, SubmitEncryptedSensorData 11 21 1001,
         RequestAnomalyDetection 0 1 (Some 7), RequestAnomalyDetection 0 2 (Some 8),
         HandleAnomalyResult 8 [2] [1]]) 2) \<and>
   decryptedEvents (transact sample_oracle (SubmitEncryptedSensorData 12 22 1002)
     (run sample_oracle initial
        [SubmitEncryptedSensorData 10 20 1000, SubmitEncryptedSensorData 11 21 1001,
         RequestAnomalyDetection 0 1 (Some 7), RequestAnomalyDetection 0 2 (Some 8),
         HandleAnomalyResult 8 [2] [1]])) 2 =
   decryptedEvents (run sample_oracle initial
        [SubmitEncryptedSensorData 10 20 1000, SubmitEncryptedSensorData 11 21 1001,
         RequestAnomalyDetection 0 1 (Some 7), RequestAnomalyDetection 0 2 (Some 8),
         HandleAnomalyResult 8 [2] [1]]) 2"
proof -
  let ?cs = "[SubmitEncryptedSensorData 10 20 1000, SubmitEncryptedSensorData 11 21 1001,
         RequestAnomalyDetection 0 1 (Some 7), RequestAnomalyDetection 0 2 (Some 8),
         HandleAnomalyResult 8 [2] [1]]"
  let ?later = "[RequestAnomalyDetection 0 1 (Some 9), SubmitEncryptedSensorData 12 22 1002,
         HandleAnomalyResult 7 [2] [1]]"
  have h: "handleAnomalyResult sample_oracle 7 [1] [1] (run sample_oracle initial ?cs) =
     Inr (run sample_oracle initial (?cs @ [HandleAnomalyResult 7 [1] [1]]), [AnomalyDetected 1])"
    by (simp add: sample_defs)
  from handled_is_terminal [OF h, where later = ?later and requestId' = 9 and cleartexts' = "[2]"
      and prf' = "[1]" and dataId = 2 and c = "SubmitEncryptedSensorData 12 22 1002"] h
  show ?thesis
    by (simp add: sample_defs)
qed

text \<open>
  Claim C3, within the range of the counter. For every sequence of \<open>N < 2^256\<close> calls of
  \<open>submitEncryptedSensorData\<close> from the initial state, the ids of the events
  \<open>SensorDataSubmitted\<close> are exactly \<open>1, ..., N\<close> in the order of the submissions. The
  submission at position \<open>k\<close> (counted from 0) returns, emits the event with id
  \<open>k + 1\<close> and its timestamp, stores the record with its handles under that id, and
  right after it \<open>getDecryptedEvent\<close> of that id is the empty summary with
  \<open>False\<close>. No record is stored under id 0.
\<close>

theorem submissions_numbered:
  assumes "length xs < 2 ^ 256"
  shows "submitted_ids orc initial (submissions xs) = map word_of_nat [1..<Suc (length xs)] \<and>
    id_data (sensorDatas (run orc initial (submissions xs)) 0) = 0 \<and>
    (k < length xs \<and> xs ! k = (activity, sleep, ts) \<longrightarrow>
      submitEncryptedSensorData activity sleep ts (run orc initial (submissions (take k xs))) =
        Inr (run orc initial (submissions (take (Suc k) xs)),
             [SensorDataSubmitted (word_of_nat (Suc k)) ts]) \<and>
      sensorDatas (run orc initial (submissions (take (Suc k) xs))) (word_of_nat (Suc k)) =
        \<lparr>id_data = word_of_nat (Suc k), encryptedActivityVector = activity,
         encryptedSleepVector = sleep, timestamp_data = ts\<rparr> \<and>
      getDecryptedEvent (run orc initial (submissions (take (Suc k) xs))) (word_of_nat (Suc k)) =
        ([], False))"
proof -
  have a: "submitted_ids orc initial (submissions xs) = map word_of_nat [1..<Suc (length xs)]"
    using assms by (simp add: submissions_count)
  have "id_data (sensorDatas initial 0) = 0" by (simp add: initial_def)
  with record_origin [of orc initial "submissions xs" 0]
  have b: "id_data (sensorDatas (run orc initial (submissions xs)) 0) = 0" by blast
  have c: "k < length xs \<and> xs ! k = (activity, sleep, ts) \<longrightarrow>
      submitEncryptedSensorData activity sleep ts (run orc initial (submissions (take k xs))) =
        Inr (run orc initial (submissions (take (Suc k) xs)),
             [SensorDataSubmitted (word_of_nat (Suc k)) ts]) \<and>
      sensorDatas (run orc initial (submissions (take (Suc k) xs))) (word_of_nat (Suc k)) =
        \<lparr>id_data = word_of_nat (Suc k), encryptedActivityVector = activity,
         encryptedSleepVector = sleep, timestamp_data = ts\<rparr> \<and>
      getDecryptedEvent (run orc initial (submissions (take (Suc k) xs))) (word_of_nat (Suc k)) =
        ([], False)"
  proof
    assume h: "k < length xs \<and> xs ! k = (activity, sleep, ts)"
    let ?s = "run orc initial (submissions (take k xs))"
    from h assms have lk: "length (take k xs) < 2 ^ 256" and k: "k < 2 ^ 256 - 1"
      by simp_all
    from submissions_count [OF lk, of orc] h
    have cnt: "sensorDataCount ?s = word_of_nat k" by simp
    note st = submit_step [OF cnt k, of activity sleep ts]
    from h have "take (Suc k) xs = take k xs @ [(activity, sleep, ts)]"
      by (simp add: take_Suc_conv_app_nth)
    then have r: "run orc initial (submissions (take (Suc k) xs)) =
        transact orc (SubmitEncryptedSensorData activity sleep ts) ?s"
      by (simp add: submissions_snoc run_append)
    show "submitEncryptedSensorData activity sleep ts ?s =
        Inr (run orc initial (submissions (take (Suc k) xs)),
             [SensorDataSubmitted (word_of_nat (Suc k)) ts]) \<and>
      sensorDatas (run orc initial (submissions (take (Suc k) xs))) (word_of_nat (Suc k)) =
        \<lparr>id_data = word_of_nat (Suc k), encryptedActivityVector = activity,
         encryptedSleepVector = sleep, timestamp_data = ts\<rparr> \<and>
      getDecryptedEvent (run orc initial (submissions (take (Suc k) xs))) (word_of_nat (Suc k)) =
        ([], False)"
      unfolding r by (simp add: transact_def st getDecryptedEvent_def)
  qed
  show ?thesis
    by (intro conjI) (fact a, fact b, fact c)
qed

text \<open>Two submissions: the second one is assigned id 2.\<close>

theorem submissions_numbered_witness:
  "length [(10, 20, 1000), (11, 21, 1001 :: uint256)] < 2 ^ 256 \<and>
   submitted_ids sample_oracle initial (submissions [(10, 20, 1000), (11, 21, 1001)]) = [1, 2] \<and>
   [(10, 20, 1000), (11, 21, 1001 :: uint256)] ! 1 = (11, 21, 1001) \<and>
   submitEncryptedSensorData 11 21 1001
     (run sample_oracle initial (submissions [(10, 20, 1000)])) =
     Inr (run sample_oracle initial (submissions [(10, 20, 1000), (11, 21, 1001)]),
          [SensorDataSubmitted 2 1001]) \<and>
   getDecryptedEvent (run sample_oracle initial (submissions [(10, 20, 1000), (11, 21, 1001)])) 2 =
     ([], False)"
  using submissions_numbered [where xs = "[(10, 20, 1000), (11, 21, 1001)]" and k = 1 and activity = 11
      and sleep = 21 and ts = 1001 and orc = sample_oracle]
  by (simp add: sample_defs submissions_def)

text \<open>
  Claim C3 as it is stated, for every \<open>N\<close>, fails at \<open>N = 2^256\<close>: the counter is a
  \<open>uint256\<close> under checked arithmetic, and the last submission of such a sequence
  reverts instead of being assigned the id \<open>2^256\<close>.
\<close>

theorem submissions_overflow:
  "submitEncryptedSensorData 0 0 0
      (run sample_oracle initial (submissions (replicate (2 ^ 256 - 1) (0, 0, 0)))) =
      Inl Arithmetic_overflow \<and>
   submitted_ids sample_oracle initial (submissions (replicate (2 ^ 256) (0, 0, 0))) \<noteq>
      map word_of_nat [1..<Suc (2 ^ 256)]"
  by (rule conjI) (rule counter_full(1) [OF refl], rule counter_full(2) [OF refl])

text \<open>
  Claim C4. When \<open>handleAnomalyResult\<close> returns, the summary it stored for the record
  of its token is the first string of the decoded list, or the empty string when the
  list is empty; the rest of the list has no influence, and the record is handled. In
  particular: a record is submitted with any two handles and gets id 1, a request
  registers the token \<open>T\<close> for it, and a callback arrives under \<open>T\<close> whose proof
  verifies and whose cleartexts decode as the strings ``fall_detected'' and ``ok''; then
  \<open>getDecryptedEvent 1\<close> is ``fall_detected'' with \<open>True\<close>.
\<close>

theorem summary_is_first_result:
  "(abi_decode_string_array orc cleartexts = Some results \<and>
    handleAnomalyResult orc requestId cleartexts pf s = Inr (s', evs) \<longrightarrow>
      getDecryptedEvent s' (requestToDataId s requestId) =
        (case results of [] \<Rightarrow> [] | r # rest \<Rightarrow> r, True)) \<and>
   (checkSignatures orc T cleartexts pf \<and>
    abi_decode_string_array orc cleartexts = Some [''fall_detected'', ''ok''] \<longrightarrow>
      getDecryptedEvent
        (run orc initial [SubmitEncryptedSensorData a sl ts,
           RequestAnomalyDetection sender 1 (Some T), HandleAnomalyResult T cleartexts pf]) 1 =
        (''fall_detected'', True))"
proof -
  have a: "abi_decode_string_array orc cleartexts = Some results \<and>
    handleAnomalyResult orc requestId cleartexts pf s = Inr (s', evs) \<longrightarrow>
      getDecryptedEvent s' (requestToDataId s requestId) =
        (case results of [] \<Rightarrow> [] | r # rest \<Rightarrow> r, True)"
  proof
    assume h: "abi_decode_string_array orc cleartexts = Some results \<and>
      handleAnomalyResult orc requestId cleartexts pf s = Inr (s', evs)"
    then have "handleAnomalyResult orc requestId cleartexts pf s = Inr (s', evs)" by simp
    from handle_return(4) [OF this] h
    show "getDecryptedEvent s' (requestToDataId s requestId) =
        (case results of [] \<Rightarrow> [] | r # rest \<Rightarrow> r, True)"
      by (auto simp: getDecryptedEvent_def)
  qed
  have b: "checkSignatures orc T cleartexts pf \<and>
    abi_decode_string_array orc cleartexts = Some [''fall_detected'', ''ok''] \<longrightarrow>
      getDecryptedEvent
        (run orc initial [SubmitEncryptedSensorData a sl ts,
           RequestAnomalyDetection sender 1 (Some T), HandleAnomalyResult T cleartexts pf]) 1 =
        (''fall_detected'', True)"
    by (simp add: contract_defs initial_def transact_def getDecryptedEvent_def Let_def)
  show ?thesis
    by (intro conjI) (fact a, fact b)
qed

text \<open>
  The example of the claim, on the sample oracle.
\<close>

theorem summary_is_first_result_witness:
  "abi_decode_string_array sample_oracle [1] = Some [''fall_detected'', ''ok''] \<and>
   checkSignatures sample_oracle 7 [1] [1] \<and>
   handleAnomalyResult sample_oracle 7 [1] [1]
     (run sample_oracle initial
       [SubmitEncryptedSensorData 10 20 1000, RequestAnomalyDetection 0 1 (Some 7)]) =
     Inr (run sample_oracle initial
       [SubmitEncryptedSensorData 10 20 1000, RequestAnomalyDetection 0 1 (Some 7),
        HandleAnomalyResult 7 [1] [1]], [AnomalyDetected 1]) \<and>
   getDecryptedEvent (run sample_oracle initial
       [SubmitEncryptedSensorData 10 20 1000, RequestAnomalyDetection 0 1 (Some 7),
        HandleAnomalyResult 7 [1] [1]]) 1 = (''fall_detected'', True)"
  using summary_is_first_result [where orc = sample_oracle and cleartexts = "[1]"
      and results = "[''fall_detected'', ''ok'']" and requestId = 7 and pf = "[1]"
      and s = "run sample_oracle initial
        [SubmitEncryptedSensorData 10 20 1000, RequestAnomalyDetection 0 1 (Some 7)]"
      and s' = "run sample_oracle initial
        [SubmitEncryptedSensorData 10 20 1000, RequestAnomalyDetection 0 1 (Some 7),
         HandleAnomalyResult 7 [1] [1]]"
      and evs = "[AnomalyDetected 1]" and T = 7 and a = 10 and sl = 20 and ts = 1000
      and sender = 0]
  by (simp add: sample_defs)

text \<open>
  Claim C5, for cleartexts that decode. Let the token be registered for an alert, the
  proof verify and the cleartexts decode as a string. Then \<open>handleAlertCleartext\<close>
  returns on every invocation: after any number \<open>n\<close> of invocations with the same
  arguments the next one returns again, with the storage unchanged and the event
  \<open>AlertDecrypted\<close> of the alert emitted once more. For all arguments and states
  whatsoever, the function never reverts with \<open>Already_handled\<close> and leaves the
  table of outcomes as it was.
\<close>

theorem alert_callback_repeatable:
  assumes "requestToAlertId s requestId \<noteq> 0"
    and "checkSignatures orc requestId cleartexts pf"
    and "abi_decode_string orc cleartexts = Some alertText"
  shows "handleAlertCleartext orc requestId cleartexts pf
      (run orc s (replicate n (HandleAlertCleartext requestId cleartexts pf))) =
      Inr (s, [AlertDecrypted (requestToAlertId s requestId)]) \<and>
    handleAlertCleartext orc' requestId' cleartexts' pf' s' \<noteq> Inl Already_handled \<and>
    decryptedEvents (transact orc' (HandleAlertCleartext requestId' cleartexts' pf') s') =
      decryptedEvents s'"
proof -
  from assms have "handleAlertCleartext orc requestId cleartexts pf s =
      Inr (s, [AlertDecrypted (requestToAlertId s requestId)])"
    by (simp add: handleAlertCleartext_def)
  then have a: "handleAlertCleartext orc requestId cleartexts pf
      (run orc s (replicate n (HandleAlertCleartext requestId cleartexts pf))) =
      Inr (s, [AlertDecrypted (requestToAlertId s requestId)])"
    by (simp add: alert_callbacks_keep_state)
  have b: "handleAlertCleartext orc' requestId' cleartexts' pf' s' \<noteq> Inl Already_handled"
    by (simp add: handleAlertCleartext_def Let_def split: option.splits)
  have c: "decryptedEvents (transact orc' (HandleAlertCleartext requestId' cleartexts' pf') s') =
      decryptedEvents s'"
    by (simp add: alert_callback_keeps_state)
  show ?thesis
    by (intro conjI) (fact a, fact b, fact c)
qed

text \<open>
  An alert is submitted and a request registered under token 9; the callback is
  delivered twice.
\<close>

theorem alert_callback_repeatable_witness:
  "requestToAlertId (run sample_oracle initial
      [SubmitEncryptedAlert 5 1000, RequestAlertDecryption 0 1 (Some 9)]) 9 = 1 \<and>
   checkSignatures sample_oracle 9 [4] [1] \<and>
   abi_decode_string sample_oracle [4] = Some ''help'' \<and>
   handleAlertCleartext sample_oracle 9 [4] [1]
     (run sample_oracle initial [SubmitEncryptedAlert 5 1000, RequestAlertDecryption 0 1 (Some 9),
        HandleAlertCleartext 9 [4] [1]]) =
     Inr (run sample_oracle initial [SubmitEncryptedAlert 5 1000, RequestAlertDecryption 0 1 (Some 9)],
          [AlertDecrypted 1])"
  using alert_callback_repeatable [where s = "run sample_oracle initial
      [SubmitEncryptedAlert 5 1000, RequestAlertDecryption 0 1 (Some 9)]" and requestId = 9
      and orc = sample_oracle and cleartexts = "[4]" and pf = "[1]" and alertText = "''help''"
      and n = 1]
  by (simp add: sample_defs)

text \<open>
  Claim C5 as it is stated, for every registered token and verifying proof, fails when
  the cleartexts are not the encoding of a string: \<open>abi.decode\<close> reverts after the
  signature check has passed. Here the cleartexts are the empty byte string.
\<close>

theorem alert_callback_undecodable:
  "requestToAlertId (run sample_oracle initial
      [SubmitEncryptedAlert 5 1000, RequestAlertDecryption 0 1 (Some 9)]) 9 = 1 \<and>
   checkSignatures sample_oracle 9 [] [1] \<and>
   handleAlertCleartext sample_oracle 9 [] [1]
     (run sample_oracle initial [SubmitEncryptedAlert 5 1000, RequestAlertDecryption 0 1 (Some 9)]) =
     Inl Decode_failure"
  by (simp add: sample_defs)

text \<open>
  Claim C6. In every state reached from the initial one, \<open>handleAnomalyResult\<close> with a
  token under which no call of \<open>requestAnomalyDetection\<close> returned reverts with
  \<open>Invalid_request\<close> (the token reads as 0 in \<open>requestToDataId\<close>), and the storage is
  unchanged.
\<close>

theorem unknown_token_invalid_request:
  "tok \<notin> set (anomaly_tokens orc initial cs) \<Longrightarrow>
   requestToDataId (run orc initial cs) tok = 0 \<and>
   handleAnomalyResult orc tok cleartexts prf (run orc initial cs) = Inl Invalid_request \<and>
   transact orc (HandleAnomalyResult tok cleartexts prf) (run orc initial cs) =
     run orc initial cs"
proof -
  assume a: "tok \<notin> set (anomaly_tokens orc initial cs)"
  have "requestToDataId initial tok = 0" by (simp add: initial_def)
  with a token_origin [of orc initial cs tok]
  have z: "requestToDataId (run orc initial cs) tok = 0" by blast
  then have "handleAnomalyResult orc tok cleartexts prf (run orc initial cs) = Inl Invalid_request"
    by (simp add: handleAnomalyResult_def)
  with z show ?thesis by (simp add: transact_def)
qed

text \<open>
  Token 8 was returned by \<open>requestAlertDecryption\<close> only, and the one
  \<open>requestAnomalyDetection\<close> that returned registered token 7.
\<close>

theorem unknown_token_invalid_request_witness:
  "handleAnomalyResult sample_oracle 8 [1] [1]
     (run sample_oracle initial [SubmitEncryptedSensorData 10 20 1000,
        RequestAnomalyDetection 0 1 (Some 7), SubmitEncryptedAlert 5 1001,
        RequestAlertDecryption 0 1 (Some 8)]) = Inl Invalid_request \<and>
   transact sample_oracle (HandleAnomalyResult 8 [1] [1])
     (run sample_oracle initial [SubmitEncryptedSensorData 10 20 1000,
        RequestAnomalyDetection 0 1 (Some 7), SubmitEncryptedAlert 5 1001,
        RequestAlertDecryption 0 1 (Some 8)]) =
     run sample_oracle initial [SubmitEncryptedSensorData 10 20 1000,
        RequestAnomalyDetection 0 1 (Some 7), SubmitEncryptedAlert 5 1001,
        RequestAlertDecryption 0 1 (Some 8)]"
  using unknown_token_invalid_request [of 8 sample_oracle
      "[SubmitEncryptedSensorData 10 20 1000,
        RequestAnomalyDetection 0 1 (Some 7), SubmitEncryptedAlert 5 1001,
        RequestAlertDecryption 0 1 (Some 8)]" "[1]" "[1]"]
  by (simp add: sample_defs)

text \<open>
  Claim C7. In every state reached from the initial one, \<open>requestAnomalyDetection\<close>
  reverts with \<open>Data_not_found\<close> for the id 0 and for every id under which no record was
  submitted; the storage is unchanged, and so is the correlation \<open>requestToDataId\<close>.
\<close>

theorem request_unknown_record_not_found:
  "dataId = 0 \<or> dataId \<notin> set (submitted_ids orc initial cs) \<Longrightarrow>
   requestAnomalyDetection sender dataId answer (run orc initial cs) = Inl Data_not_found \<and>
   transact orc (RequestAnomalyDetection sender dataId answer) (run orc initial cs) =
     run orc initial cs \<and>
   requestToDataId (transact orc (RequestAnomalyDetection sender dataId answer)
     (run orc initial cs)) = requestToDataId (run orc initial cs)"
proof -
  assume "dataId = 0 \<or> dataId \<notin> set (submitted_ids orc initial cs)"
  then have n: "dataId \<notin> set (submitted_ids orc initial cs)"
    using zero_never_submitted [of orc initial cs] by auto
  have "id_data (sensorDatas initial dataId) = 0" by (simp add: initial_def)
  with n record_origin [of orc initial cs dataId]
  have "id_data (sensorDatas (run orc initial cs) dataId) = 0" by blast
  then have "requestAnomalyDetection sender dataId answer (run orc initial cs) = Inl Data_not_found"
    by (simp add: requestAnomalyDetection_def onlySource_def)
  then show ?thesis by (simp add: transact_def)
qed

text \<open>One record was submitted, under id 1; a request for id 2 reverts.\<close>

theorem request_unknown_record_not_found_witness:
  "requestAnomalyDetection 0 2 (Some 7)
     (run sample_oracle initial [SubmitEncryptedSensorData 10 20 1000,
        SubmitEncryptedAlert 5 1001, SubmitEncryptedAlert 6 1002]) = Inl Data_not_found \<and>
   transact sample_oracle (RequestAnomalyDetection 0 2 (Some 7))
     (run sample_oracle initial [SubmitEncryptedSensorData 10 20 1000,
        SubmitEncryptedAlert 5 1001, SubmitEncryptedAlert 6 1002]) =
     run sample_oracle initial [SubmitEncryptedSensorData 10 20 1000,
        SubmitEncryptedAlert 5 1001, SubmitEncryptedAlert 6 1002]"
  using request_unknown_record_not_found [of 2 sample_oracle
      "[SubmitEncryptedSensorData 10 20 1000,
        SubmitEncryptedAlert 5 1001, SubmitEncryptedAlert 6 1002]" 0 "Some 7"]
  by (simp add: sample_defs)

text \<open>
  Claim C8. Let two tokens map to different records. Delivering the callback of the
  first and then that of the second leaves the same storage as delivering them in the
  opposite order. After both, the outcome of each record is what its own callback alone
  produces; when both requests are outstanding (registered, not handled) and both
  callbacks verify and decode, that is the first string of its own cleartexts with
  \<open>True\<close>.
\<close>

theorem independent_callbacks_commute:
  assumes "requestToDataId s t1 \<noteq> requestToDataId s t2"
  shows "transact orc (HandleAnomalyResult t2 c2 p2)
      (transact orc (HandleAnomalyResult t1 c1 p1) s) =
    transact orc (HandleAnomalyResult t1 c1 p1)
      (transact orc (HandleAnomalyResult t2 c2 p2) s) \<and>
    getDecryptedEvent (transact orc (HandleAnomalyResult t2 c2 p2)
      (transact orc (HandleAnomalyResult t1 c1 p1) s)) (requestToDataId s t1) =
      getDecryptedEvent (transact orc (HandleAnomalyResult t1 c1 p1) s) (requestToDataId s t1) \<and>
    getDecryptedEvent (transact orc (HandleAnomalyResult t2 c2 p2)
      (transact orc (HandleAnomalyResult t1 c1 p1) s)) (requestToDataId s t2) =
      getDecryptedEvent (transact orc (HandleAnomalyResult t2 c2 p2) s) (requestToDataId s t2) \<and>
    (requestToDataId s t1 \<noteq> 0 \<and> \<not> isHandled (decryptedEvents s (requestToDataId s t1)) \<and>
     checkSignatures orc t1 c1 p1 \<and> abi_decode_string_array orc c1 = Some rs1 \<and>
     requestToDataId s t2 \<noteq> 0 \<and> \<not> isHandled (decryptedEvents s (requestToDataId s t2)) \<and>
     checkSignatures orc t2 c2 p2 \<and> abi_decode_string_array orc c2 = Some rs2 \<longrightarrow>
       getDecryptedEvent (transact orc (HandleAnomalyResult t2 c2 p2)
         (transact orc (HandleAnomalyResult t1 c1 p1) s)) (requestToDataId s t1) =
         (case rs1 of [] \<Rightarrow> [] | r # rest \<Rightarrow> r, True) \<and>
       getDecryptedEvent (transact orc (HandleAnomalyResult t2 c2 p2)
         (transact orc (HandleAnomalyResult t1 c1 p1) s)) (requestToDataId s t2) =
         (case rs2 of [] \<Rightarrow> [] | r # rest \<Rightarrow> r, True))"
proof -
  let ?H1 = "HandleAnomalyResult t1 c1 p1"
  let ?H2 = "HandleAnomalyResult t2 c2 p2"
  let ?R1 = "requestToDataId s t1"
  let ?R2 = "requestToDataId s t2"
  have a: "transact orc ?H2 (transact orc ?H1 s) = transact orc ?H1 (transact orc ?H2 s)"
    using assms by (rule callbacks_commute_state)
  have k1: "requestToDataId (transact orc ?H1 s) t2 \<noteq> ?R1"
    using assms by (simp add: callback_keeps_correlation)
  have k2: "requestToDataId (transact orc ?H2 s) t1 \<noteq> ?R2"
    using assms by (simp add: callback_keeps_correlation)
  have b: "getDecryptedEvent (transact orc ?H2 (transact orc ?H1 s)) ?R1 =
      getDecryptedEvent (transact orc ?H1 s) ?R1"
    using callback_other_record [OF k1] by (simp add: getDecryptedEvent_def)
  have c: "getDecryptedEvent (transact orc ?H2 (transact orc ?H1 s)) ?R2 =
      getDecryptedEvent (transact orc ?H2 s) ?R2"
    unfolding a using callback_other_record [OF k2] by (simp add: getDecryptedEvent_def)
  have d: "?R1 \<noteq> 0 \<and> \<not> isHandled (decryptedEvents s ?R1) \<and>
     checkSignatures orc t1 c1 p1 \<and> abi_decode_string_array orc c1 = Some rs1 \<and>
     ?R2 \<noteq> 0 \<and> \<not> isHandled (decryptedEvents s ?R2) \<and>
     checkSignatures orc t2 c2 p2 \<and> abi_decode_string_array orc c2 = Some rs2 \<longrightarrow>
       getDecryptedEvent (transact orc ?H2 (transact orc ?H1 s)) ?R1 =
         (case rs1 of [] \<Rightarrow> [] | r # rest \<Rightarrow> r, True) \<and>
       getDecryptedEvent (transact orc ?H2 (transact orc ?H1 s)) ?R2 =
         (case rs2 of [] \<Rightarrow> [] | r # rest \<Rightarrow> r, True)"
    unfolding b c by (simp add: callback_alone)
  show ?thesis
    by (intro conjI) (fact a, fact b, fact c, fact d)
qed

text \<open>
  Two records with the tokens 7 and 8, delivered in both orders.
\<close>

theorem independent_callbacks_commute_witness:
  "requestToDataId (run sample_oracle initial
      [SubmitEncryptedSensorData 10 20 1000, SubmitEncryptedSensorData 11 21 1001,
       RequestAnomalyDetection 0 1 (Some 7), RequestAnomalyDetection 0 2 (Some 8)]) 7 = 1 \<and>
   requestToDataId (run sample_oracle initial
      [SubmitEncryptedSensorData 10 20 1000, SubmitEncryptedSensorData 11 21 1001,
       RequestAnomalyDetection 0 1 (Some 7), RequestAnomalyDetection 0 2 (Some 8)]) 8 = 2 \<and>
   run sample_oracle initial
      [SubmitEncryptedSensorData 10 20 1000, SubmitEncryptedSensorData 11 21 1001,
       RequestAnomalyDetection 0 1 (Some 7), RequestAnomalyDetection 0 2 (Some 8),
       HandleAnomalyResult 7 [1] [1], HandleAnomalyResult 8 [2] [1]] =
   run sample_oracle initial
      [SubmitEncryptedSensorData 10 20 1000, SubmitEncryptedSensorData 11 21 1001,
       RequestAnomalyDetection 0 1 (Some 7), RequestAnomalyDetection 0 2 (Some 8),
       HandleAnomalyResult 8 [2] [1], HandleAnomalyResult 7 [1] [1]] \<and>
   getDecryptedEvent (run sample_oracle initial
      [SubmitEncryptedSensorData 10 20 1000, SubmitEncryptedSensorData 11 21 1001,
       RequestAnomalyDetection 0 1 (Some 7), RequestAnomalyDetection 0 2 (Some 8),
       HandleAnomalyResult 8 [2] [1], HandleAnomalyResult 7 [1] [1]]) 1 =
     (''fall_detected'', True) \<and>
   getDecryptedEvent (run sample_oracle initial
      [SubmitEncryptedSensorData 10 20 1000, SubmitEncryptedSensorData 11 21 1001,
       RequestAnomalyDetection 0 1 (Some 7), RequestAnomalyDetection 0 2 (Some 8),
       HandleAnomalyResult 8 [2] [1], HandleAnomalyResult 7 [1] [1]]) 2 =
     (''no_anomaly'', True)"
proof -
  let ?s = "run sample_oracle initial
      [SubmitEncryptedSensorData 10 20 1000, SubmitEncryptedSensorData 11 21 1001,
       RequestAnomalyDetection 0 1 (Some 7), RequestAnomalyDetection 0 2 (Some 8)]"
  have r: "requestToDataId ?s 7 = 1" "requestToDataId ?s 8 = 2"
    by (simp_all add: sample_defs)
  then have n: "requestToDataId ?s 7 \<noteq> requestToDataId ?s 8" by simp
  from independent_callbacks_commute [OF n, where orc = sample_oracle and ?c1.0 = "[1]" and ?p1.0 = "[1]"
      and ?c2.0 = "[2]" and ?p2.0 = "[1]" and ?rs1.0 = "[''fall_detected'', ''ok'']"
      and ?rs2.0 = "[''no_anomaly'']"] r
  show ?thesis
    by (simp add: sample_defs fun_upd_twist)
qed

text \<open>
  Claim C9, with the library call. \<open>requestAnomalyDetection\<close> reverts in two cases only:
  with \<open>Data_not_found\<close> when no record is stored under the id, and with the revert of
  \<open>FHE.requestDecryption\<close> when a record is stored and the library refuses the request.
  The sender has no influence on the result: the modifier \<open>onlySource\<close> checks nothing,
  and the contract has no error for a refused caller. In a state reached from the initial
  one, a request for any submitted record that the library answers with a request id
  returns, whatever the handled flag of its outcome is: it registers that id for the
  record and leaves the outcome as it was. When the library reverts instead, the request
  reverts although the record exists.
\<close>

theorem request_fails_without_record_or_in_library:
  "(requestAnomalyDetection sender dataId answer s = Inl e \<longrightarrow>
      (e = Data_not_found \<and> id_data (sensorDatas s dataId) = 0) \<or>
      (e = Decryption_request_reverted \<and> answer = None \<and>
       id_data (sensorDatas s dataId) \<noteq> 0)) \<and>
   requestAnomalyDetection sender' dataId answer s =
     requestAnomalyDetection sender dataId answer s \<and>
   (dataId \<in> set (submitted_ids orc initial cs) \<longrightarrow>
      requestAnomalyDetection sender dataId (Some reqId) (run orc initial cs) =
        Inr (transact orc (RequestAnomalyDetection sender dataId (Some reqId))
               (run orc initial cs),
             [AnomalyDetectionRequested dataId]) \<and>
      requestToDataId (transact orc (RequestAnomalyDetection sender dataId (Some reqId))
        (run orc initial cs)) reqId = dataId \<and>
      getDecryptedEvent (transact orc (RequestAnomalyDetection sender dataId (Some reqId))
        (run orc initial cs)) dataId = getDecryptedEvent (run orc initial cs) dataId \<and>
      requestAnomalyDetection sender dataId None (run orc initial cs) =
        Inl Decryption_request_reverted)"
proof -
  have a: "requestAnomalyDetection sender dataId answer s = Inl e \<longrightarrow>
      (e = Data_not_found \<and> id_data (sensorDatas s dataId) = 0) \<or>
      (e = Decryption_request_reverted \<and> answer = None \<and>
       id_data (sensorDatas s dataId) \<noteq> 0)"
    by (auto simp: requestAnomalyDetection_def onlySource_def Let_def
        split: if_splits option.splits)
  have b: "requestAnomalyDetection sender' dataId answer s =
      requestAnomalyDetection sender dataId answer s"
    by (simp add: requestAnomalyDetection_def onlySource_def)
  have c: "dataId \<in> set (submitted_ids orc initial cs) \<longrightarrow>
      requestAnomalyDetection sender dataId (Some reqId) (run orc initial cs) =
        Inr (transact orc (RequestAnomalyDetection sender dataId (Some reqId))
               (run orc initial cs),
             [AnomalyDetectionRequested dataId]) \<and>
      requestToDataId (transact orc (RequestAnomalyDetection sender dataId (Some reqId))
        (run orc initial cs)) reqId = dataId \<and>
      getDecryptedEvent (transact orc (RequestAnomalyDetection sender dataId (Some reqId))
        (run orc initial cs)) dataId = getDecryptedEvent (run orc initial cs) dataId \<and>
      requestAnomalyDetection sender dataId None (run orc initial cs) =
        Inl Decryption_request_reverted"
  proof
    assume "dataId \<in> set (submitted_ids orc initial cs)"
    with within_initial have "id_data (sensorDatas (run orc initial cs) dataId) \<noteq> 0"
      by (simp add: submitted_persist)
    then show "requestAnomalyDetection sender dataId (Some reqId) (run orc initial cs) =
        Inr (transact orc (RequestAnomalyDetection sender dataId (Some reqId))
               (run orc initial cs),
             [AnomalyDetectionRequested dataId]) \<and>
      requestToDataId (transact orc (RequestAnomalyDetection sender dataId (Some reqId))
        (run orc initial cs)) reqId = dataId \<and>
      getDecryptedEvent (transact orc (RequestAnomalyDetection sender dataId (Some reqId))
        (run orc initial cs)) dataId = getDecryptedEvent (run orc initial cs) dataId \<and>
      requestAnomalyDetection sender dataId None (run orc initial cs) =
        Inl Decryption_request_reverted"
      by (simp add: transact_def requestAnomalyDetection_def onlySource_def
          getDecryptedEvent_def)
  qed
  show ?thesis
    by (intro conjI) (fact a, fact b, fact c)
qed

text \<open>
  A request for a missing record reverts with \<open>Data_not_found\<close>. Record 1 is handled: a
  further request for it, from another sender, returns when the library answers with the
  new request id 9 and registers 9 for it, and reverts when the library reverts.
\<close>

theorem request_fails_without_record_or_in_library_witness:
  "requestAnomalyDetection 5 2 (Some 7) initial = Inl Data_not_found \<and>
   id_data (sensorDatas initial 2) = 0 \<and>
   1 \<in> set (submitted_ids sample_oracle initial
     [SubmitEncryptedSensorData 10 20 1000, RequestAnomalyDetection 0 1 (Some 7),
      HandleAnomalyResult 7 [1] [1]]) \<and>
   getDecryptedEvent (run sample_oracle initial
     [SubmitEncryptedSensorData 10 20 1000, RequestAnomalyDetection 0 1 (Some 7),
      HandleAnomalyResult 7 [1] [1]]) 1 = (''fall_detected'', True) \<and>
   requestToDataId (transact sample_oracle (RequestAnomalyDetection 5 1 (Some 9))
     (run sample_oracle initial
       [SubmitEncryptedSensorData 10 20 1000, RequestAnomalyDetection 0 1 (Some 7),
        HandleAnomalyResult 7 [1] [1]])) 9 = 1 \<and>
   requestAnomalyDetection 5 1 (Some 9) (run sample_oracle initial
     [SubmitEncryptedSensorData 10 20 1000, RequestAnomalyDetection 0 1 (Some 7),
      HandleAnomalyResult 7 [1] [1]]) =
     Inr (transact sample_oracle (RequestAnomalyDetection 5 1 (Some 9))
       (run sample_oracle initial
         [SubmitEncryptedSensorData 10 20 1000, RequestAnomalyDetection 0 1 (Some 7),
          HandleAnomalyResult 7 [1] [1]]), [AnomalyDetectionRequested 1]) \<and>
   requestAnomalyDetection 5 1 None (run sample_oracle initial
     [SubmitEncryptedSensorData 10 20 1000, RequestAnomalyDetection 0 1 (Some 7),
      HandleAnomalyResult 7 [1] [1]]) = Inl Decryption_request_reverted"
  using request_fails_without_record_or_in_library [where sender = 5 and dataId = 1
      and reqId = 9 and orc = sample_oracle and answer = None
      and e = Decryption_request_reverted
      and s = "run sample_oracle initial
        [SubmitEncryptedSensorData 10 20 1000, RequestAnomalyDetection 0 1 (Some 7),
         HandleAnomalyResult 7 [1] [1]]"
      and cs = "[SubmitEncryptedSensorData 10 20 1000, RequestAnomalyDetection 0 1 (Some 7),
        HandleAnomalyResult 7 [1] [1]]"]
    request_fails_without_record_or_in_library [where sender = 5 and dataId = 2
      and answer = "Some 7" and s = initial and e = Data_not_found]
  by (simp add: sample_defs)

text \<open>
  Claim C9 as it is stated, that the request fails only for a record that does not exist,
  fails when the library call reverts: record 1 is stored, and the request for it
  reverts.
\<close>

theorem request_for_stored_record_reverts_in_library:
  "1 \<in> set (submitted_ids sample_oracle initial [SubmitEncryptedSensorData 10 20 1000]) \<and>
   id_data (sensorDatas (run sample_oracle initial [SubmitEncryptedSensorData 10 20 1000]) 1) = 1 \<and>
   requestAnomalyDetection 0 1 None
     (run sample_oracle initial [SubmitEncryptedSensorData 10 20 1000]) =
     Inl Decryption_request_reverted"
  by (simp add: sample_defs)

text \<open>
  Claim C10. \<open>submitEncryptedAlert\<close> leaves the record counter, the stored records,
  the outcomes and both correlation mappings as they were, whether it returns or
  reverts. When the alert counter is not full it returns, increments the counter, stores
  the alert under the new id and emits \<open>EncryptedAlertSubmitted\<close>; the outcome read
  under the new alert id is the one that was there before. A record submission, unlike
  it, writes the empty unhandled outcome under its new id.
\<close>

theorem alert_intake_frame:
  "sensorDataCount (transact orc (SubmitEncryptedAlert payload ts) s) = sensorDataCount s \<and>
   sensorDatas (transact orc (SubmitEncryptedAlert payload ts) s) = sensorDatas s \<and>
   decryptedEvents (transact orc (SubmitEncryptedAlert payload ts) s) = decryptedEvents s \<and>
   requestToDataId (transact orc (SubmitEncryptedAlert payload ts) s) = requestToDataId s \<and>
   requestToAlertId (transact orc (SubmitEncryptedAlert payload ts) s) = requestToAlertId s \<and>
   (alertCount s \<noteq> - 1 \<longrightarrow>
      submitEncryptedAlert payload ts s =
        Inr (transact orc (SubmitEncryptedAlert payload ts) s,
             [EncryptedAlertSubmitted (alertCount s + 1) ts]) \<and>
      alertCount (transact orc (SubmitEncryptedAlert payload ts) s) = alertCount s + 1 \<and>
      encryptedAlerts (transact orc (SubmitEncryptedAlert payload ts) s) (alertCount s + 1) =
        \<lparr>id_alert = alertCount s + 1, encryptedAlertPayload = payload, timestamp_alert = ts\<rparr> \<and>
      getDecryptedEvent (transact orc (SubmitEncryptedAlert payload ts) s) (alertCount s + 1) =
        getDecryptedEvent s (alertCount s + 1)) \<and>
   (sensorDataCount s \<noteq> - 1 \<longrightarrow>
      getDecryptedEvent (transact orc (SubmitEncryptedSensorData activity sleep ts) s)
        (sensorDataCount s + 1) = ([], False))"
  by (simp add: transact_def submitEncryptedAlert_def submitEncryptedSensorData_def
      checked_increment_def getDecryptedEvent_def)

text \<open>
  Record 1 is handled; the first alert also gets the id 1, and the outcome under 1 is
  still that of the record.
\<close>

theorem alert_intake_frame_witness:
  "alertCount (run sample_oracle initial [SubmitEncryptedSensorData 10 20 1000,
      RequestAnomalyDetection 0 1 (Some 7), HandleAnomalyResult 7 [1] [1]]) \<noteq> - 1 \<and>
   submitEncryptedAlert 5 1001 (run sample_oracle initial [SubmitEncryptedSensorData 10 20 1000,
      RequestAnomalyDetection 0 1 (Some 7), HandleAnomalyResult 7 [1] [1]]) =
     Inr (run sample_oracle initial [SubmitEncryptedSensorData 10 20 1000,
      RequestAnomalyDetection 0 1 (Some 7), HandleAnomalyResult 7 [1] [1], SubmitEncryptedAlert 5 1001],
      [EncryptedAlertSubmitted 1 1001]) \<and>
   getDecryptedEvent (run sample_oracle initial [SubmitEncryptedSensorData 10 20 1000,
      RequestAnomalyDetection 0 1 (Some 7), HandleAnomalyResult 7 [1] [1], SubmitEncryptedAlert 5 1001]) 1 =
     (''fall_detected'', True) \<and>
   sensorDataCount (run sample_oracle initial [SubmitEncryptedSensorData 10 20 1000,
      RequestAnomalyDetection 0 1 (Some 7), HandleAnomalyResult 7 [1] [1]]) \<noteq> - 1 \<and>
   getDecryptedEvent (run sample_oracle initial [SubmitEncryptedSensorData 10 20 1000,
      RequestAnomalyDetection 0 1 (Some 7), HandleAnomalyResult 7 [1] [1],
      SubmitEncryptedSensorData 11 21 1001]) 2 = ([], False)"
  using alert_intake_frame [where s = "run sample_oracle initial [SubmitEncryptedSensorData 10 20 1000,
      RequestAnomalyDetection 0 1 (Some 7), HandleAnomalyResult 7 [1] [1]]" and orc = sample_oracle
      and payload = 5 and ts = 1001 and activity = 11 and sleep = 21]
  by (simp add: sample_defs)

end
